theory Spec2Isabelle
  imports Complex_Main "HOL-Library.AList"
begin

section \<open>Python values, exceptions and string primitives\<close>

text \<open>
  The controller \<^verbatim>\<open>vulcanController.py\<close> is Python. Every exception the modelled code can
  raise is a value of \<open>error\<close>; a function that may raise returns \<open>error + 'a\<close>.
\<close>

datatype error =
    FileNotFoundError
  | IndexError
  | AttributeError
  | TypeError
  | ValueError
  | SyntaxError
  | UnboundLocalError
  | KeyError

text \<open>The enum \<^verbatim>\<open>directions\<close>; every call site passes one of its two names.\<close>

datatype directions = IMPORT | EXPORT

text \<open>The values that cross the column translation: strings, integers and tuples.\<close>

datatype pyval = PStr string | PInt int | PTuple "pyval list"

definition andThen :: "error + 'a \<Rightarrow> ('a \<Rightarrow> error + 'b) \<Rightarrow> error + 'b" where
  "andThen r f = (case r of Inl e \<Rightarrow> Inl e | Inr x \<Rightarrow> f x)"

definition is_digit :: "char \<Rightarrow> bool" where
  "is_digit c = (c \<in> set ''0123456789'')"

text \<open>\<^verbatim>\<open>int(c)\<close> on a one-character string: the digit's value, or ValueError.\<close>

definition py_int_char :: "char \<Rightarrow> error + int" where
  "py_int_char c = (if is_digit c then Inr (int (of_char c) - 48) else Inl ValueError)"

definition digit_char :: "nat \<Rightarrow> char" where
  "digit_char d = ''0123456789'' ! d"

text \<open>\<^verbatim>\<open>str(n)\<close> for an integer: decimal digits, a leading minus sign when negative.\<close>

fun str_nat :: "nat \<Rightarrow> string" where
  "str_nat n = (if n < 10 then [digit_char n] else str_nat (n div 10) @ [digit_char (n mod 10)])"

declare str_nat.simps [simp del]

definition str_int :: "int \<Rightarrow> string" where
  "str_int i = (if i < 0 then CHR ''-'' # str_nat (nat (- i)) else str_nat (nat i))"

text \<open>\<^verbatim>\<open>range(n)\<close>: empty when \<open>n \<le> 0\<close>.\<close>

definition py_range :: "int \<Rightarrow> int list" where
  "py_range n = map int [0..<nat n]"

text \<open>\<^verbatim>\<open>s[i]\<close> for a non-negative index: IndexError beyond the end.\<close>

definition char_at :: "string \<Rightarrow> nat \<Rightarrow> error + char" where
  "char_at s i = (if i < length s then Inr (s ! i) else Inl IndexError)"

text \<open>\<^verbatim>\<open>s.startswith(sub)\<close>.\<close>

definition is_prefix :: "string \<Rightarrow> string \<Rightarrow> bool" where
  "is_prefix sub s = (take (length sub) s = sub)"

text \<open>\<^verbatim>\<open>sub in s\<close> on strings.\<close>

fun contains_str :: "string \<Rightarrow> string \<Rightarrow> bool" where
  "contains_str sub [] = (sub = [])"
| "contains_str sub (c # cs) = (is_prefix sub (c # cs) \<or> contains_str sub cs)"

text \<open>
  \<^verbatim>\<open>s.split(sep)\<close> for a non-empty separator: the pieces between the non-overlapping
  occurrences of \<open>sep\<close> found from the left; always at least one piece. (Python raises
  ValueError for an empty separator; every separator in the source is a non-empty
  constant, and the model then returns the whole string.)
\<close>

function split_acc :: "string \<Rightarrow> string \<Rightarrow> string \<Rightarrow> string list" where
  "split_acc sep acc [] = [rev acc]"
| "split_acc sep acc (c # cs) =
     (if sep \<noteq> [] \<and> is_prefix sep (c # cs)
      then rev acc # split_acc sep [] (drop (length sep) (c # cs))
      else split_acc sep (c # acc) cs)"
  by pat_completeness auto
termination
  by (relation "measure (\<lambda>(sep, acc, s). length s)") (auto simp: neq_Nil_conv)

definition split :: "string \<Rightarrow> string \<Rightarrow> string list" where
  "split s sep = split_acc sep [] s"

text \<open>\<^verbatim>\<open>sep.join(xs)\<close> on a list of strings.\<close>

fun join :: "string \<Rightarrow> string list \<Rightarrow> string" where
  "join sep [] = []"
| "join sep [x] = x"
| "join sep (x # y # ys) = x @ sep @ join sep (y # ys)"

text \<open>
  \<^verbatim>\<open>c.isspace()\<close> on the code points below 256: tab, line feed, vertical tab, form feed,
  carriage return, the four separators 28..31, space, NEL (133) and the no-break space (160).
\<close>

definition is_space :: "char \<Rightarrow> bool" where
  "is_space c = (of_char c \<in> {9, 10, 11, 12, 13, 28, 29, 30, 31, 32, 133, 160 :: nat})"

text \<open>\<^verbatim>\<open>s.strip()\<close>.\<close>

definition strip :: "string \<Rightarrow> string" where
  "strip s = rev (dropWhile is_space (rev (dropWhile is_space s)))"

section \<open>Column grid and neighbours\<close>

text \<open>
  \<^verbatim>\<open>generateColumns\<close> (lines 509-523). The argument is the list
  \<^verbatim>\<open>globalParameters['world']['atmosphereDim']\<close>; both loops read its element 0.
\<close>

definition generateColumns :: "int list \<Rightarrow> error + string list" where
  "generateColumns atmosphereDim =
     (case atmosphereDim of
        [] \<Rightarrow> Inl IndexError
      | d0 # _ \<Rightarrow>
          Inr (concat (map (\<lambda>x. map (\<lambda>y. ''2'' @ str_int x @ str_int y) (py_range d0))
                           (py_range d0))))"

text \<open>The f-string \<^verbatim>\<open>f'{a}{b}{c}'\<close> of three integers.\<close>

definition columnID :: "int \<Rightarrow> int \<Rightarrow> int \<Rightarrow> string" where
  "columnID a b c = str_int a @ str_int b @ str_int c"

text \<open>\<^verbatim>\<open>int(column[i])\<close>: IndexError when the string is too short, ValueError on a non-digit.\<close>

definition int_at :: "string \<Rightarrow> nat \<Rightarrow> error + int" where
  "int_at column i = andThen (char_at column i) py_int_char"

text \<open>
  \<^verbatim>\<open>nearestColumns\<close> (lines 526-548): the four candidates are built in the source's order
  (each reads \<^verbatim>\<open>column[0]\<close>, \<^verbatim>\<open>column[1]\<close>, \<^verbatim>\<open>column[2]\<close> in turn), then every candidate
  that contains a minus sign is dropped.
\<close>

definition nearestColumns :: "string \<Rightarrow> error + string list" where
  "nearestColumns column =
     andThen (int_at column 0) (\<lambda>c0.
     andThen (int_at column 1) (\<lambda>c1.
     andThen (int_at column 2) (\<lambda>c2.
       Inr (filter (\<lambda>x. \<not> contains_str ''-'' x)
             [ columnID c0 (c1 + 1) c2,
               columnID c0 (c1 - 1) c2,
               columnID c0 c1 (c2 - 1),
               columnID c0 c1 (c2 + 1) ]))))"

section \<open>Literal evaluation\<close>

text \<open>
  \<^verbatim>\<open>eval\<close> is Python's built-in. \<open>literal_eval\<close> is its restriction to the literal texts
  that occur below: surrounding white space, a decimal integer literal (no leading zero
  unless all digits are zero, an optional minus sign), a single-quoted string without quote
  or backslash, and a parenthesised comma list of integer literals (\<^verbatim>\<open>()\<close> is the empty
  tuple, \<^verbatim>\<open>(7)\<close> the integer 7, one trailing comma is allowed). Every other text is
  reported as SyntaxError; results of this file that evaluate \<open>literal_eval\<close> use texts of
  the fragment, or texts on which Python raises as well.
\<close>

definition nat_of_digits :: "string \<Rightarrow> nat" where
  "nat_of_digits s = foldl (\<lambda>acc c. 10 * acc + (of_char c - 48)) 0 s"

definition dec_literal :: "string \<Rightarrow> int option" where
  "dec_literal s =
     (if s \<noteq> [] \<and> list_all is_digit s \<and> (hd s \<noteq> CHR ''0'' \<or> list_all (\<lambda>c. c = CHR ''0'') s)
      then Some (int (nat_of_digits s)) else None)"

definition int_literal :: "string \<Rightarrow> int option" where
  "int_literal s =
     (case s of
        [] \<Rightarrow> None
      | c # cs \<Rightarrow> if c = CHR ''-'' then map_option uminus (dec_literal (strip cs))
                 else dec_literal s)"

fun all_some :: "'a option list \<Rightarrow> 'a list option" where
  "all_some [] = Some []"
| "all_some (None # xs) = None"
| "all_some (Some x # xs) = map_option ((#) x) (all_some xs)"

definition tuple_literal :: "string \<Rightarrow> error + pyval" where
  "tuple_literal inner =
     (if strip inner = [] then Inr (PTuple [])
      else
        let pieces = map strip (split inner '','');
            items = (if 2 \<le> length pieces \<and> last pieces = [] then butlast pieces else pieces)
        in case all_some (map int_literal items) of
             None \<Rightarrow> Inl SyntaxError
           | Some vs \<Rightarrow> if length pieces = 1 then Inr (PInt (hd vs))
                        else Inr (PTuple (map PInt vs)))"

definition literal_eval :: "string \<Rightarrow> error + pyval" where
  "literal_eval text =
     (let t = strip text in
      case int_literal t of
        Some i \<Rightarrow> Inr (PInt i)
      | None \<Rightarrow>
          if 2 \<le> length t \<and> hd t = CHR 0x27 \<and> last t = CHR 0x27
             \<and> CHR 0x27 \<notin> set (butlast (tl t)) \<and> CHR 0x5C \<notin> set (butlast (tl t))
             \<and> CHR 0x0A \<notin> set (butlast (tl t))
          then Inr (PStr (butlast (tl t)))
          else if 2 \<le> length t \<and> hd t = CHR ''('' \<and> last t = CHR '')''
          then tuple_literal (butlast (tl t))
          else Inl SyntaxError)"

section \<open>Translation layer\<close>

text \<open>
  \<^verbatim>\<open>sep.join(col)\<close> where \<open>col\<close> is any Python value: a string is iterated character by
  character, a tuple must hold strings only (TypeError otherwise), an integer is not
  iterable (TypeError).
\<close>

fun str_items :: "pyval list \<Rightarrow> error + string list" where
  "str_items [] = Inr []"
| "str_items (PStr s # xs) = andThen (str_items xs) (\<lambda>r. Inr (s # r))"
| "str_items (_ # xs) = Inl TypeError"

fun py_join :: "string \<Rightarrow> pyval \<Rightarrow> error + string" where
  "py_join sep (PStr s) = Inr (join sep (map (\<lambda>c. [c]) s))"
| "py_join sep (PTuple xs) = andThen (str_items xs) (\<lambda>r. Inr (join sep r))"
| "py_join sep (PInt i) = Inl TypeError"

text \<open>\<^verbatim>\<open>translateCol\<close> (lines 696-703).\<close>

fun translateCol :: "directions \<Rightarrow> pyval \<Rightarrow> error + pyval" where
  "translateCol EXPORT col =
     andThen (py_join '','' col) (\<lambda>inner. literal_eval (''('' @ inner @ '')''))"
| "translateCol IMPORT col = andThen (py_join [] col) (\<lambda>s. Inr (PStr s))"

subsection \<open>Floating point\<close>

text \<open>
  A Python \<^verbatim>\<open>float\<close> is an IEEE 754 binary64 number. A finite one is the rational it
  denotes (the two zeros are one value, as \<^verbatim>\<open>==\<close> has it); \<open>fl\<close> rounds an exact
  rational result to the nearest binary64 number, ties to even, with gradual underflow and
  overflow to infinity: 53 significant bits, exponents from -1022 to 1023.
\<close>

datatype pyfloat = Finite rat | PosInf | NegInf | NaN

function bitlen :: "int \<Rightarrow> int" where
  "bitlen n = (if n \<le> 0 then 0 else 1 + bitlen (n div 2))"
  by pat_completeness auto
termination
  by (relation "measure nat") auto

declare bitlen.simps [simp del]

text \<open>\<open>pow2i e\<close> is \<open>2^e\<close> for \<open>e \<ge> 0\<close>, by repeated squaring; \<open>pow2\<close> extends it to negative exponents.\<close>

function pow2i :: "int \<Rightarrow> int" where
  "pow2i e =
     (if e \<le> 0 then 1
      else let h = pow2i (e div 2) in if even e then h * h else 2 * h * h)"
  by pat_completeness auto
termination
  by (relation "measure nat") auto

declare pow2i.simps [simp del]

definition pow2 :: "int \<Rightarrow> rat" where
  "pow2 e = (if 0 \<le> e then of_int (pow2i e) else 1 / of_int (pow2i (- e)))"

text \<open>\<open>ilog2 a\<close> is the integer \<open>e\<close> with \<open>2^e \<le> a < 2^(e+1)\<close>, for \<open>a > 0\<close>.\<close>

definition ilog2 :: "rat \<Rightarrow> int" where
  "ilog2 a =
     (let (n, d) = quotient_of a;
          e0 = bitlen n - bitlen d
      in if pow2 e0 \<le> a then e0 else e0 - 1)"

definition round_half_even :: "rat \<Rightarrow> int" where
  "round_half_even q =
     (let f = \<lfloor>q\<rfloor>; d = q - of_int f
      in if d < 1 / 2 then f else if 1 / 2 < d then f + 1 else if even f then f else f + 1)"

definition fl :: "rat \<Rightarrow> pyfloat" where
  "fl q =
     (if q = 0 then Finite 0
      else
        let a = \<bar>q\<bar>;
            e = max (ilog2 a) (- 1022);
            u = pow2 (e - 52);
            r = of_int (round_half_even (a / u)) * u
        in if pow2 1024 \<le> r then (if 0 < q then PosInf else NegInf)
           else Finite (if 0 < q then r else - r))"

text \<open>\<^verbatim>\<open>x * k\<close> and \<^verbatim>\<open>x / k\<close> for a positive finite constant \<open>k\<close>.\<close>

definition fmul_const :: "pyfloat \<Rightarrow> rat \<Rightarrow> pyfloat" where
  "fmul_const x k = (case x of Finite a \<Rightarrow> fl (a * k) | _ \<Rightarrow> x)"

definition fdiv_const :: "pyfloat \<Rightarrow> rat \<Rightarrow> pyfloat" where
  "fdiv_const x k = (case x of Finite a \<Rightarrow> fl (a / k) | _ \<Rightarrow> x)"

text \<open>\<^verbatim>\<open>translatePressure\<close> (lines 706-712) and \<^verbatim>\<open>translateHeight\<close> (lines 715-721).\<close>

fun translatePressure :: "directions \<Rightarrow> pyfloat \<Rightarrow> pyfloat" where
  "translatePressure EXPORT pressure = fdiv_const pressure 10"
| "translatePressure IMPORT pressure = fmul_const pressure 10"

fun translateHeight :: "directions \<Rightarrow> pyfloat \<Rightarrow> pyfloat" where
  "translateHeight EXPORT height = fdiv_const height 100"
| "translateHeight IMPORT height = fmul_const height 100"

section \<open>Controller state and files\<close>

text \<open>
  The attributes of \<^verbatim>\<open>vulcanController\<close> that the modelled methods read or write. A text
  file is the list of its lines as \<^verbatim>\<open>readlines()\<close> returns them (each with its line
  terminator); the file system maps a path to its file. Opening a missing file for reading
  raises FileNotFoundError.
\<close>

record controller =
  outputDir :: string
  vulcanFrameworkDir :: string
  VulcanRuntimeDir :: string
  VulcanRuntimeLogFilePath :: string
  cfgComparator :: string
  vulcanRunType :: string
  currentRunID :: string
  out_name :: string
  modifyAtmFilePath :: string

type_synonym files = "string \<rightharpoonup> string list"

text \<open>\<^verbatim>\<open>os.path.exists\<close> on a file path; the empty path never exists.\<close>

definition os_path_exists :: "files \<Rightarrow> string \<Rightarrow> bool" where
  "os_path_exists fs p = (p \<noteq> [] \<and> fs p \<noteq> None)"

text \<open>\<^verbatim>\<open>os.path.join(a, b)\<close> (POSIX).\<close>

definition os_path_join :: "string \<Rightarrow> string \<Rightarrow> string" where
  "os_path_join a b =
     (if is_prefix ''/'' b then b
      else if a = [] \<or> last a = CHR ''/'' then a @ b
      else a @ ''/'' @ b)"

definition readlines :: "files \<Rightarrow> string \<Rightarrow> error + string list" where
  "readlines fs p = (case fs p of None \<Rightarrow> Inl FileNotFoundError | Some ls \<Rightarrow> Inr ls)"

section \<open>Run ledger: the controller generation\<close>

text \<open>
  \<^verbatim>\<open>vulcanOutput\<close> (lines 173-196). On INITIAL_RUN the output directories are recreated
  and the log is rewritten with a header (\<open>header\<close>, its lines; it carries time stamps);
  \<^verbatim>\<open>currentRunID\<close> keeps the \<^verbatim>\<open>'1-'\<close> set by the constructor. On NO_RUN nothing happens.
  On every other run type the last log line whose first space-separated word is \<^verbatim>\<open>Run\<close>
  is taken, and the ONE character at index 4 of it is read as the previous generation.
  The result is the controller, with its new \<^verbatim>\<open>currentRunID\<close>, and the files.
\<close>

definition under_dir :: "string \<Rightarrow> string \<Rightarrow> bool" where
  "under_dir d p = is_prefix (if d \<noteq> [] \<and> last d = CHR ''/'' then d else d @ ''/'') p"

definition vulcanOutput ::
  "string list \<Rightarrow> controller \<Rightarrow> files \<Rightarrow> error + (controller \<times> files)" where
  "vulcanOutput header self fs =
     (if vulcanRunType self = ''INITIAL_RUN'' then
        Inr (self, (\<lambda>p. if under_dir (outputDir self) p \<or> under_dir (VulcanRuntimeDir self) p
                         then None else fs p)
                   (VulcanRuntimeLogFilePath self \<mapsto> header))
      else if vulcanRunType self \<noteq> ''NO_RUN'' then
        andThen (readlines fs (VulcanRuntimeLogFilePath self)) (\<lambda>lines.
          case filter (\<lambda>x. hd (split x '' '') = ''Run'') lines of
            [] \<Rightarrow> Inl IndexError
          | r # rs \<Rightarrow>
              let runString = last (r # rs) in
              andThen (int_at runString 4) (\<lambda>g.
                Inr (self\<lparr>currentRunID := str_int (g + 1) @ ''-''\<rparr>, fs)))
      else Inr (self, fs))"

text \<open>
  The run identifier of a column, as \<^verbatim>\<open>runFullVulcan\<close> sets it (line 217):
  \<^verbatim>\<open>self.currentRunID.split('-')[0] + f'-{column}'\<close>.
\<close>

definition columnRunID :: "controller \<Rightarrow> string \<Rightarrow> string" where
  "columnRunID self column = hd (split (currentRunID self) ''-'') @ ''-'' @ column"

section \<open>Dedup engine\<close>

text \<open>
  \<^verbatim>\<open>checkDupLinesToDict\<close> (lines 467-506). \<open>ev\<close> stands for \<^verbatim>\<open>eval\<close>: \<open>None\<close> when it
  raises (the bare \<^verbatim>\<open>except\<close> catches everything), \<open>Some v\<close> for the value. Values are
  compared with HOL equality where Python uses \<^verbatim>\<open>!=\<close>. A dictionary is an association
  list with distinct keys, in insertion order. The result is \<open>Inr None\<close> for the
  \<^verbatim>\<open>return False\<close>, \<open>Inr (Some d)\<close> for a dictionary, and \<open>Inl IndexError\<close> when a line has
  no equals sign (\<^verbatim>\<open>line.split('=')[1]\<close> is outside the \<^verbatim>\<open>try\<close>).
\<close>

fun linesToDict ::
  "(string \<Rightarrow> 'v option) \<Rightarrow> string list \<Rightarrow> (string \<times> 'v) list \<Rightarrow> error + (string \<times> 'v) list option" where
  "linesToDict ev [] dict = Inr (Some dict)"
| "linesToDict ev (line # rest) dict =
     (let parts = split line ''='' in
      if length parts < 2 then Inl IndexError
      else
        let key = strip (parts ! 0); val = strip (parts ! 1) in
        case ev val of
          None \<Rightarrow> Inr None
        | Some newValue \<Rightarrow> linesToDict ev rest (AList.update key newValue dict))"

definition cfgLines :: "string list \<Rightarrow> string list" where
  "cfgLines cfgFileLines =
     (let lines_1 = map strip cfgFileLines;
          lines_2 = map (\<lambda>x. hd (split x ''#'')) lines_1;
          lines_3 = filter (\<lambda>x. x \<noteq> []) lines_2;
          lines_4 = filter (\<lambda>x. hd x \<noteq> CHR ''#'') lines_3
      in lines_4)"

definition popAll :: "string list \<Rightarrow> (string \<times> 'v) list \<Rightarrow> (string \<times> 'v) list" where
  "popAll ignoreVarList dict = foldl (\<lambda>d ignoreVar. AList.delete ignoreVar d) dict ignoreVarList"

definition checkDupLinesToDict ::
  "(string \<Rightarrow> 'v option) \<Rightarrow> string list \<Rightarrow> string list \<Rightarrow> error + (string \<times> 'v) list option" where
  "checkDupLinesToDict ev cfgFileLines ignoreVarList =
     andThen (linesToDict ev (cfgLines cfgFileLines) [])
       (\<lambda>r. Inr (map_option (popAll ignoreVarList) r))"

text \<open>
  \<^verbatim>\<open>checkDup\<close> (lines 398-464). The result \<open>Fresh\<close> is the \<^verbatim>\<open>False\<close> of the source,
  \<open>Reuse p l\<close> the list \<^verbatim>\<open>[previousCfgFilePath, latestCfgFilePath]\<close>.

  \<open>dictMatch\<close> is the comparison of lines 452-459: equal key sets, then equal values
  at every key. \<open>scanPrevious\<close> is the loop of lines 441-462; inside it the guard of line
  449 tests \<^verbatim>\<open>latestCfgFileVarDict\<close>, which is a non-empty dictionary there, so a previous
  artifact that failed to parse reaches \<^verbatim>\<open>previousCfgFileVarDict.keys()\<close> as \<^verbatim>\<open>False\<close>:
  AttributeError.
\<close>

datatype classification = Fresh | Reuse string string

definition dictMatch :: "(string \<times> 'v) list \<Rightarrow> (string \<times> 'v) list \<Rightarrow> bool" where
  "dictMatch previous latest =
     (set (map fst previous) = set (map fst latest)
      \<and> list_all (\<lambda>key. map_of previous key = map_of latest key) (map fst previous))"

fun scanPrevious ::
  "(string \<Rightarrow> 'v option) \<Rightarrow> files \<Rightarrow> string list \<Rightarrow> (string \<times> 'v) list \<Rightarrow> string
     \<Rightarrow> string list \<Rightarrow> error + classification" where
  "scanPrevious ev fs ignoreVarList latest latestCfgFilePath [] = Inr Fresh"
| "scanPrevious ev fs ignoreVarList latest latestCfgFilePath (previousCfgFilePath # rest) =
     andThen (readlines fs previousCfgFilePath) (\<lambda>ls.
     andThen (checkDupLinesToDict ev ls ignoreVarList) (\<lambda>r.
       case r of
         None \<Rightarrow> Inl AttributeError
       | Some previous \<Rightarrow>
           if dictMatch previous latest then Inr (Reuse previousCfgFilePath latestCfgFilePath)
           else scanPrevious ev fs ignoreVarList latest latestCfgFilePath rest))"

definition cfgFilePathEvents :: "string list \<Rightarrow> string list" where
  "cfgFilePathEvents logLines = filter (\<lambda>x. hd (split x '':'') = ''CfgFilePath'') logLines"

definition previousCfgFilePaths :: "string list \<Rightarrow> string list" where
  "previousCfgFilePaths logLines =
     butlast (map (\<lambda>x. strip (last (split x ''CfgFilePath: ''))) (cfgFilePathEvents logLines))"

definition latestCfgFilePath :: "controller \<Rightarrow> string" where
  "latestCfgFilePath self = os_path_join (vulcanFrameworkDir self) ''vulcan_cfg.py''"

definition checkDup ::
  "(string \<Rightarrow> 'v option) \<Rightarrow> controller \<Rightarrow> files \<Rightarrow> error + classification" where
  "checkDup ev self fs =
     (if os_path_exists fs (modifyAtmFilePath self) then Inr Fresh
      else
        andThen (readlines fs (cfgComparator self)) (\<lambda>cmp.
        let ignoreVarList = map strip cmp in
        andThen (readlines fs (VulcanRuntimeLogFilePath self)) (\<lambda>logLines.
        if length (cfgFilePathEvents logLines) = 1 then Inr Fresh
        else
          andThen (readlines fs (latestCfgFilePath self)) (\<lambda>latestLines.
          andThen (checkDupLinesToDict ev latestLines ignoreVarList) (\<lambda>r.
            case r of
              None \<Rightarrow> Inr Fresh
            | Some latest \<Rightarrow>
                if latest = [] then Inr Fresh
                else scanPrevious ev fs ignoreVarList latest (latestCfgFilePath self)
                       (previousCfgFilePaths logLines))))))"

section \<open>Config assembler: inbound overrides\<close>

text \<open>
  The loop of \<^verbatim>\<open>cfgVulcan\<close> over \<^verbatim>\<open>importCfgVulcan\<close> (lines 344-368), run when the run
  type is USE_LATEST_VUL. An override mapping holds floats. \<open>translateOverrides\<close> is the
  inner loop (lines 352-357): \<^verbatim>\<open>newValue\<close> is a local of \<^verbatim>\<open>cfgVulcan\<close>, unbound
  (\<open>None\<close>) until a first key assigns it, and kept from one key to the next; both branches
  call \<^verbatim>\<open>translateHeight\<close>. The translated mapping replaces the entries of
  \<^verbatim>\<open>updateDict\<close> in place and is dumped to the side artifact \<^verbatim>\<open>modify_atm.json\<close>.
\<close>

type_synonym overrides = "(string \<times> pyfloat) list"

fun translateOverrides :: "pyfloat option \<Rightarrow> overrides \<Rightarrow> error + (pyfloat option \<times> overrides)" where
  "translateOverrides newValue [] = Inr (newValue, [])"
| "translateOverrides newValue ((key, val) # rest) =
     (case (if contains_str ''Height'' key then Some (translateHeight IMPORT val)
            else if contains_str ''Pressure'' key then Some (translateHeight IMPORT val)
            else newValue) of
        None \<Rightarrow> Inl UnboundLocalError
      | Some v \<Rightarrow>
          andThen (translateOverrides (Some v) rest) (\<lambda>(n, r). Inr (n, (key, v) # r)))"

record assembly =
  ctl :: controller
  newValue :: "pyfloat option"
  sideArtifacts :: "string \<rightharpoonup> overrides"
  combineDict :: "(string \<times> string) list"

fun injectImports ::
  "string \<Rightarrow> (pyval \<times> overrides) list \<Rightarrow> assembly \<Rightarrow> error + ((pyval \<times> overrides) list \<times> assembly)" where
  "injectImports column [] st = Inr ([], st)"
| "injectImports column ((positionString, updateDict) # rest) st =
     andThen (translateCol IMPORT positionString) (\<lambda>translatePositionString.
       if translatePositionString = PStr column then
         let path = os_path_join (VulcanRuntimeDir (ctl st))
                      (out_name (ctl st) @ ''-run-'' @ currentRunID (ctl st) @ ''-modify_atm.json'')
         in andThen (translateOverrides (newValue st) updateDict) (\<lambda>(nv, translated).
              andThen (injectImports column rest
                         (st\<lparr> ctl := (ctl st)\<lparr>modifyAtmFilePath := path\<rparr>,
                              newValue := nv,
                              sideArtifacts := (sideArtifacts st)(path \<mapsto> translated),
                              combineDict :=
                                AList.update ''atm_type'' (CHR 0x27 # ''vulcan_ini_modify'' @ [CHR 0x27])
                                  (AList.update ''ini_mix'' (CHR 0x27 # ''vulcan_ini_modify'' @ [CHR 0x27])
                                     (combineDict st)) \<rparr>))
                (\<lambda>(r, st'). Inr ((positionString, translated) # r, st')))
       else
         andThen (injectImports column rest st)
           (\<lambda>(r, st'). Inr ((positionString, updateDict) # r, st')))"

section \<open>Export aggregation for MISTRA\<close>

text \<open>
  The second loop of \<^verbatim>\<open>vulcanExport\<close> for \<^verbatim>\<open>user == 'MISTRA'\<close> (lines 620-648), for one
  column. \<open>rawOutputAll\<close> is the dictionary built by the first loop; \<open>avg\<close> stands for
  \<^verbatim>\<open>np.average\<close>. The neighbour list is
  \<^verbatim>\<open>list(set(self.nearestColumns(column)).intersection(latestRunColumns))\<close>: Python fixes no
  order for it; the model keeps the order of \<^verbatim>\<open>nearestColumns\<close> without duplicates.
  \<^verbatim>\<open>rawOutputAll[col]\<close> raises KeyError on a missing column, \<^verbatim>\<open>max\<close> raises ValueError on
  an empty list, and a neighbour without the species raises KeyError.
\<close>

record rawColumn =
  upperHeight :: pyfloat
  lowerHeight :: pyfloat
  upperPressure :: pyfloat
  lowerPressure :: pyfloat
  levelTemperature :: pyfloat
  numberDensity :: "(string \<times> pyfloat) list"

record avgColumn = rawColumn +
  index :: int

definition nearestListColumns :: "string list \<Rightarrow> string \<Rightarrow> error + string list" where
  "nearestListColumns latestRunColumns column =
     andThen (nearestColumns column)
       (\<lambda>ns. Inr (filter (\<lambda>n. n \<in> set latestRunColumns) (remdups ns)))"

fun lookupAll :: "('k \<rightharpoonup> 'a) \<Rightarrow> 'k list \<Rightarrow> error + 'a list" where
  "lookupAll m [] = Inr []"
| "lookupAll m (k # ks) =
     (case m k of
        None \<Rightarrow> Inl KeyError
      | Some v \<Rightarrow> andThen (lookupAll m ks) (\<lambda>vs. Inr (v # vs)))"

text \<open>\<^verbatim>\<open>max(xs, key=...)\<close> on a non-empty list: the first element with the largest key.\<close>

fun maxBy :: "('a \<Rightarrow> nat) \<Rightarrow> 'a \<Rightarrow> 'a list \<Rightarrow> 'a" where
  "maxBy key best [] = best"
| "maxBy key best (x # xs) = maxBy key (if key best < key x then x else best) xs"

fun speciesAverages ::
  "(pyfloat list \<Rightarrow> pyfloat) \<Rightarrow> string list \<Rightarrow> rawColumn list \<Rightarrow> error + (string \<times> pyfloat) list" where
  "speciesAverages avg [] rs = Inr []"
| "speciesAverages avg (sp # sps) rs =
     andThen (lookupAll (\<lambda>r. map_of (numberDensity r) sp) rs) (\<lambda>vals.
     andThen (speciesAverages avg sps rs) (\<lambda>rest.
       Inr ((sp, avg vals) # rest)))"

definition mistraAverage ::
  "(pyfloat list \<Rightarrow> pyfloat) \<Rightarrow> (string \<rightharpoonup> rawColumn) \<Rightarrow> string list \<Rightarrow> string \<Rightarrow> error + avgColumn" where
  "mistraAverage avg rawOutputAll latestRunColumns column =
     andThen (nearestListColumns latestRunColumns column) (\<lambda>cols.
     andThen (lookupAll rawOutputAll cols) (\<lambda>rs.
       case rs of
         [] \<Rightarrow> Inl ValueError
       | r # rest \<Rightarrow>
           let useSpCol = maxBy (\<lambda>c. length (numberDensity c)) r rest in
           andThen (speciesAverages avg (map fst (numberDensity useSpCol)) rs) (\<lambda>avgSpDict.
             Inr \<lparr> upperHeight = avg (map upperHeight rs),
                   lowerHeight = avg (map lowerHeight rs),
                   upperPressure = avg (map upperPressure rs),
                   lowerPressure = avg (map lowerPressure rs),
                   levelTemperature = avg (map levelTemperature rs),
                   numberDensity = avgSpDict,
                   index = 0 \<rparr>)))"

subsection \<open>Artifacts as variable lists\<close>


definition artifactDict ::
  "(string \<Rightarrow> 'v option) \<Rightarrow> files \<Rightarrow> string list \<Rightarrow> string \<Rightarrow> (string \<times> 'v) list option" where
  "artifactDict ev fs ignoreVarList p =
     (case readlines fs p of
        Inl e \<Rightarrow> None
      | Inr ls \<Rightarrow>
          (case checkDupLinesToDict ev ls ignoreVarList of
             Inr (Some d) \<Rightarrow> Some d
           | _ \<Rightarrow> None))"


section \<open>Example inputs\<close>

definition example_column :: "rat \<Rightarrow> rawColumn" where
  "example_column t =
     \<lparr> upperHeight = Finite 12, lowerHeight = Finite 10, upperPressure = Finite 900,
       lowerPressure = Finite 1000, levelTemperature = Finite t,
       numberDensity = [(''OH'', Finite 3), (''H2O'', Finite 5)] \<rparr>"

definition example_rawOutputAll :: "string \<rightharpoonup> rawColumn" where
  "example_rawOutputAll =
     [''201'' \<mapsto> example_column 280, ''210'' \<mapsto> example_column 290, ''211'' \<mapsto> example_column 300]"

text \<open>A line of a text file: the text and its line feed.\<close>

definition textline :: "string \<Rightarrow> string" where
  "textline s = s @ [CHR 0x0A]"

text \<open>\<^verbatim>\<open>eval\<close> inside \<^verbatim>\<open>try ... except\<close>, on the literal fragment.\<close>

definition eval_opt :: "string \<Rightarrow> pyval option" where
  "eval_opt text = (case literal_eval text of Inl e \<Rightarrow> None | Inr v \<Rightarrow> Some v)"

definition example_controller :: controller where
  "example_controller =
     \<lparr> outputDir = ''/scum/output'',
       vulcanFrameworkDir = ''/scum/vulcan_framework/'',
       VulcanRuntimeDir = ''/scum/output/vul-runtime/'',
       VulcanRuntimeLogFilePath = ''/scum/output/vul-runtime/vul-log.txt'',
       cfgComparator = ''/scum/input/VulcanCfgComparator.txt'',
       vulcanRunType = ''USE_LATEST_VUL'',
       currentRunID = ''1-'',
       out_name = ''vul'',
       modifyAtmFilePath = [] \<rparr>"

definition example_assembly :: assembly where
  "example_assembly =
     \<lparr> ctl = example_controller\<lparr>currentRunID := ''2-200''\<rparr>,
       newValue = None, sideArtifacts = Map.empty, combineDict = [] \<rparr>"

text \<open>A ledger whose last run is generation 10, column 200.\<close>

definition ledger_generation_ten :: files where
  "ledger_generation_ten =
     [''/scum/output/vul-runtime/vul-log.txt'' \<mapsto>
        [textline ''Vulcan configured: 1700000000.0'',
         textline ''Run 10-200'',
         textline ''CfgFilePath: /scum/output/vul-runtime/vul-run-10-200-cfgFile.txt'',
         textline ''Vulcan column complete: 1700000100.0'',
         textline ''Run 10-200'']]"

text \<open>
  Two recorded configuration events; the earlier artifact holds a value that is no
  expression (a lone closing parenthesis), the working artifact is well formed.
\<close>

definition files_unparsable_previous :: files where
  "files_unparsable_previous =
     [''/scum/input/VulcanCfgComparator.txt'' \<mapsto> [textline ''run_num''],
      ''/scum/output/vul-runtime/vul-log.txt'' \<mapsto>
        [textline ''CfgFilePath: /scum/output/vul-runtime/vul-run-1-200-cfgFile.txt'',
         textline ''CfgFilePath: /scum/output/vul-runtime/vul-run-2-200-cfgFile.txt''],
      ''/scum/output/vul-runtime/vul-run-1-200-cfgFile.txt'' \<mapsto> [textline ''nz = )''],
      ''/scum/vulcan_framework/vulcan_cfg.py'' \<mapsto> [textline ''nz = 1'']]"

text \<open>A text in single quotes.\<close>

definition quoted :: "string \<Rightarrow> string" where
  "quoted s = CHR 0x27 # s @ [CHR 0x27]"

text \<open>
  The second run of column 200: its working artifact differs from the artifact recorded for
  the first run in \<^verbatim>\<open>run_num\<close> only, and \<^verbatim>\<open>run_num\<close> is on the ignore-list.
\<close>

definition files_second_run :: files where
  "files_second_run =
     [''/scum/input/VulcanCfgComparator.txt'' \<mapsto> [textline ''run_num''],
      ''/scum/output/vul-runtime/vul-log.txt'' \<mapsto>
        [textline ''Vulcan configured: 1700000000.0'',
         textline ''Run 1-200'',
         textline ''CfgFilePath: /scum/output/vul-runtime/vul-run-1-200-cfgFile.txt'',
         textline ''Vulcan configured: 1700000200.0'',
         textline ''Run 2-200'',
         textline ''CfgFilePath: /scum/output/vul-runtime/vul-run-2-200-cfgFile.txt''],
      ''/scum/output/vul-runtime/vul-run-1-200-cfgFile.txt'' \<mapsto>
        [textline ''# base parameters'', textline ''nz = 120'', textline (''run_num = '' @ quoted ''1-200'')],
      ''/scum/vulcan_framework/vulcan_cfg.py'' \<mapsto>
        [textline ''# base parameters'', textline ''nz = 120'', textline (''run_num = '' @ quoted ''2-200'')]]"

text \<open>The same run with an override side artifact pending for the column.\<close>

definition controller_pending :: controller where
  "controller_pending =
     example_controller\<lparr>modifyAtmFilePath := ''/scum/output/vul-runtime/vul-run-2-200-modify_atm.json''\<rparr>"

definition files_pending :: files where
  "files_pending =
     files_second_run(''/scum/output/vul-runtime/vul-run-2-200-modify_atm.json'' \<mapsto> [textline ''{}''])"





section \<open>Basic facts\<close>

lemma andThen_Inr [simp]: "andThen (Inr x) f = f x"
  by (simp add: andThen_def)

lemma andThen_Inl [simp]: "andThen (Inl e) f = Inl e"
  by (simp add: andThen_def)

text \<open>The ten digits, checked one by one.\<close>

lemma digit_table:
  "list_all (\<lambda>n. digit_char n \<noteq> CHR ''-''
                \<and> py_int_char (digit_char n) = Inr (int n)
                \<and> str_int (int n + 1) \<noteq> str_int (int n)
                \<and> str_int (int n - 1) \<noteq> str_int (int n)) [0..<10]"
  by code_simp

lemma digit_facts:
  assumes "n < 10"
  shows "digit_char n \<noteq> CHR ''-''"
    and "py_int_char (digit_char n) = Inr (int n)"
    and "str_int (int n + 1) \<noteq> str_int (int n)"
    and "str_int (int n - 1) \<noteq> str_int (int n)"
proof -
  from assms have "n \<in> set [0..<10]" by simp
  with digit_table show "digit_char n \<noteq> CHR ''-''"
    and "py_int_char (digit_char n) = Inr (int n)"
    and "str_int (int n + 1) \<noteq> str_int (int n)"
    and "str_int (int n - 1) \<noteq> str_int (int n)"
    unfolding list_all_iff by blast+
qed

lemma str_int_digit:
  assumes "0 \<le> i" "i \<le> 9"
  shows "str_int i = [digit_char (nat i)]"
  using assms by (simp add: str_int_def str_nat.simps)

lemma py_int_char_digit:
  assumes "0 \<le> i" "i \<le> 9"
  shows "py_int_char (digit_char (nat i)) = Inr i"
  using assms digit_facts(2) [of "nat i"] by simp

lemma contains_minus: "contains_str ''-'' s \<longleftrightarrow> CHR ''-'' \<in> set s"
  by (induction s) (auto simp: is_prefix_def)

lemma str_nat_no_minus: "CHR ''-'' \<notin> set (str_nat n)"
proof (induction n rule: str_nat.induct)
  case (1 n)
  show ?case
  proof (cases "n < 10")
    case True
    then show ?thesis using digit_facts(1) [of n] by (simp add: str_nat.simps)
  next
    case False
    have "n mod 10 < 10" by simp
    then have "digit_char (n mod 10) \<noteq> CHR ''-''" by (rule digit_facts(1))
    with False 1 show ?thesis by (simp add: str_nat.simps [of n])
  qed
qed

lemma str_int_minus: "CHR ''-'' \<in> set (str_int i) \<longleftrightarrow> i < 0"
  using str_nat_no_minus by (simp add: str_int_def)

lemma columnID_minus:
  "contains_str ''-'' (columnID a b c) \<longleftrightarrow> a < 0 \<or> b < 0 \<or> c < 0"
  by (auto simp: contains_minus columnID_def str_int_minus)

lemma int_at_columnID:
  assumes "0 \<le> a" "a \<le> 9" "0 \<le> b" "b \<le> 9" "0 \<le> c" "c \<le> 9"
  shows "int_at (columnID a b c) 0 = Inr a"
    and "int_at (columnID a b c) (Suc 0) = Inr b"
    and "int_at (columnID a b c) 2 = Inr c"
  using assms
  by (simp_all add: columnID_def str_int_digit int_at_def char_at_def py_int_char_digit)

lemma nearestColumns_digits:
  assumes "0 \<le> a" "a \<le> 9" "0 \<le> b" "b \<le> 9" "0 \<le> c" "c \<le> 9"
  shows "nearestColumns (columnID a b c) =
           Inr ([columnID a (b + 1) c]
                @ (if 0 < b then [columnID a (b - 1) c] else [])
                @ (if 0 < c then [columnID a b (c - 1)] else [])
                @ [columnID a b (c + 1)])"
  using assms
  by (simp add: nearestColumns_def int_at_columnID columnID_minus)

lemma str_int_step:
  assumes "0 \<le> i" "i \<le> 9"
  shows "str_int (i + 1) \<noteq> str_int i" and "str_int (i - 1) \<noteq> str_int i"
  using assms digit_facts(3,4) [of "nat i"] by simp_all

lemma columnID_step:
  assumes "0 \<le> a" "a \<le> 9" "0 \<le> b" "b \<le> 9" "0 \<le> c" "c \<le> 9"
  shows "columnID a (b + 1) c \<noteq> columnID a b c"
    and "columnID a (b - 1) c \<noteq> columnID a b c"
    and "columnID a b (c + 1) \<noteq> columnID a b c"
    and "columnID a b (c - 1) \<noteq> columnID a b c"
  using str_int_step [of b] str_int_step [of c] assms
  by (simp_all add: columnID_def)

lemma lookupAll_cong:
  "(\<And>k. k \<in> set ks \<Longrightarrow> m k = m' k) \<Longrightarrow> lookupAll m ks = lookupAll m' ks"
  by (induction ks) (auto split: option.splits)

lemma mistraAverage_cong:
  assumes "nearestListColumns latest column = Inr ms"
    and "\<And>k. k \<in> set ms \<Longrightarrow> raw k = raw' k"
  shows "mistraAverage avg raw latest column = mistraAverage avg raw' latest column"
proof -
  have "lookupAll raw ms = lookupAll raw' ms"
    using assms(2) by (rule lookupAll_cong)
  then show ?thesis
    using assms(1) by (simp add: mistraAverage_def)
qed

subsection \<open>The grid as a product\<close>

lemma concat_map_product:
  "concat (map (\<lambda>x. map (\<lambda>y. g x y) ys) xs) = map (\<lambda>(x, y). g x y) (List.product xs ys)"
  by (induction xs) simp_all

lemma generateColumns_product:
  "generateColumns (n # rest) =
     Inr (map (\<lambda>(x, y). ''2'' @ str_int x @ str_int y) (List.product (py_range n) (py_range n)))"
  by (simp add: generateColumns_def concat_map_product)

lemma grid_eleven_distinct:
  "distinct (map (\<lambda>(x, y). ''2'' @ str_int x @ str_int y) (List.product (py_range 11) (py_range 11)))"
  by code_simp

lemma set_py_range: "set (py_range n) = {0..<n}"
proof (rule set_eqI)
  fix x
  show "x \<in> set (py_range n) \<longleftrightarrow> x \<in> {0..<n}"
  proof
    assume "x \<in> set (py_range n)"
    then obtain k where "k < nat n" "x = int k"
      by (auto simp: py_range_def)
    then show "x \<in> {0..<n}" by auto
  next
    assume "x \<in> {0..<n}"
    then have "nat x \<in> {0..<nat n}" and "x = int (nat x)" by auto
    then have "x \<in> int ` {0..<nat n}" by (rule_tac image_eqI)
    then show "x \<in> set (py_range n)" by (simp add: py_range_def)
  qed
qed

lemma distinct_py_range: "distinct (py_range n)"
  by (simp add: py_range_def distinct_map inj_on_def)

lemma length_py_range: "length (py_range n) = nat n"
  by (simp add: py_range_def)

subsection \<open>The scan over previous artifacts\<close>


lemma dictMatch_iff: "dictMatch previous latest \<longleftrightarrow> map_of previous = map_of latest"
proof
  assume m: "dictMatch previous latest"
  show "map_of previous = map_of latest"
  proof (rule ext)
    fix k
    show "map_of previous k = map_of latest k"
    proof (cases "k \<in> set (map fst previous)")
      case True
      from m have "\<forall>key\<in>set (map fst previous). map_of previous key = map_of latest key"
        unfolding dictMatch_def list_all_iff by blast
      with True show ?thesis by blast
    next
      case False
      from m have "set (map fst previous) = set (map fst latest)"
        unfolding dictMatch_def by blast
      with False have "k \<notin> set (map fst latest)" by blast
      with False have "map_of previous k = None" and "map_of latest k = None"
        by (simp_all add: map_of_eq_None_iff)
      then show ?thesis by simp
    qed
  qed
next
  assume e: "map_of previous = map_of latest"
  then have "dom (map_of previous) = dom (map_of latest)" by simp
  then have "set (map fst previous) = set (map fst latest)"
    by (simp add: dom_map_of_conv_image_fst)
  with e show "dictMatch previous latest"
    by (simp add: dictMatch_def list_all_iff)
qed

lemma artifactDict_Some:
  "artifactDict ev fs ign p = Some d \<longleftrightarrow>
     (\<exists>ls. readlines fs p = Inr ls \<and> checkDupLinesToDict ev ls ign = Inr (Some d))"
  by (auto simp: artifactDict_def split: sum.splits option.splits)

lemma scanPrevious_find:
  assumes "\<forall>p\<in>set ps. artifactDict ev fs ign p \<noteq> None"
  shows "scanPrevious ev fs ign latest latestPath ps =
           Inr (case find (\<lambda>p. map_option map_of (artifactDict ev fs ign p) = Some (map_of latest)) ps of
                  None \<Rightarrow> Fresh
                | Some p \<Rightarrow> Reuse p latestPath)"
  using assms
proof (induction ps)
  case Nil
  then show ?case by simp
next
  case (Cons p ps)
  from Cons.prems obtain d where d: "artifactDict ev fs ign p = Some d" by auto
  then obtain ls where ls: "readlines fs p = Inr ls" "checkDupLinesToDict ev ls ign = Inr (Some d)"
    by (auto simp: artifactDict_Some)
  from Cons have IH: "scanPrevious ev fs ign latest latestPath ps =
           Inr (case find (\<lambda>p. map_option map_of (artifactDict ev fs ign p) = Some (map_of latest)) ps of
                  None \<Rightarrow> Fresh
                | Some p \<Rightarrow> Reuse p latestPath)" by simp
  show ?case
    by (simp add: ls d dictMatch_iff IH)
qed

lemma checkDup_scan:
  assumes "\<not> os_path_exists fs (modifyAtmFilePath self)"
    and "readlines fs (cfgComparator self) = Inr cmp"
    and "readlines fs (VulcanRuntimeLogFilePath self) = Inr logLines"
    and "length (cfgFilePathEvents logLines) \<noteq> 1"
    and "artifactDict ev fs (map strip cmp) (latestCfgFilePath self) = Some latest"
    and "latest \<noteq> []"
  shows "checkDup ev self fs =
           scanPrevious ev fs (map strip cmp) latest (latestCfgFilePath self) (previousCfgFilePaths logLines)"
proof -
  from assms(5) obtain ls where ls: "readlines fs (latestCfgFilePath self) = Inr ls"
    "checkDupLinesToDict ev ls (map strip cmp) = Inr (Some latest)"
    by (auto simp: artifactDict_Some)
  show ?thesis
    using assms(1-4,6) by (simp add: checkDup_def ls)
qed

lemma previous_single: "length (cfgFilePathEvents logLines) = 1 \<Longrightarrow> previousCfgFilePaths logLines = []"
  by (cases "cfgFilePathEvents logLines") (simp_all add: previousCfgFilePaths_def)


lemma checkDup_find:
  assumes "\<not> os_path_exists fs (modifyAtmFilePath self)"
    and "readlines fs (cfgComparator self) = Inr cmp"
    and "readlines fs (VulcanRuntimeLogFilePath self) = Inr logLines"
    and "artifactDict ev fs (map strip cmp) (latestCfgFilePath self) = Some latest"
    and "latest \<noteq> []"
    and "\<forall>p\<in>set (previousCfgFilePaths logLines). artifactDict ev fs (map strip cmp) p \<noteq> None"
  shows "checkDup ev self fs =
           Inr (case find (\<lambda>p. map_option map_of (artifactDict ev fs (map strip cmp) p) = Some (map_of latest))
                       (previousCfgFilePaths logLines) of
                  None \<Rightarrow> Fresh
                | Some p \<Rightarrow> Reuse p (latestCfgFilePath self))"
proof (cases "length (cfgFilePathEvents logLines) = 1")
  case True
  then have "previousCfgFilePaths logLines = []" by (rule previous_single)
  with True assms(1-3) show ?thesis by (simp add: checkDup_def)
next
  case False
  with assms have "checkDup ev self fs =
      scanPrevious ev fs (map strip cmp) latest (latestCfgFilePath self) (previousCfgFilePaths logLines)"
    by (intro checkDup_scan)
  with assms(6) show ?thesis by (simp add: scanPrevious_find)
qed

subsection \<open>Artifacts that differ in ignored variables\<close>








section \<open>Column encoding\<close>

text \<open>
  Claim C6 states the round trip \<^verbatim>\<open>translateCol(IMPORT, translateCol(EXPORT, c)) == c\<close>.
  For the internal column \<^verbatim>\<open>'202'\<close> the export step evaluates \<^verbatim>\<open>"(2,0,2)"\<close> to a tuple of
  integers, and the import step joins that tuple with \<^verbatim>\<open>''.join\<close>, which accepts strings
  only: the round trip raises TypeError. Starting from the external tuple \<^verbatim>\<open>(2,0,2)\<close>, the
  export step itself raises TypeError, in \<^verbatim>\<open>','.join\<close>.
\<close>

theorem translateCol_roundtrip_raises:
  "translateCol EXPORT (PStr ''202'') = Inr (PTuple [PInt 2, PInt 0, PInt 2])
   \<and> andThen (translateCol EXPORT (PStr ''202'')) (translateCol IMPORT) = Inl TypeError
   \<and> translateCol EXPORT (PTuple [PInt 2, PInt 0, PInt 2]) = Inl TypeError"
  by code_simp

section \<open>Generation numbers of ten and more\<close>

text \<open>
  Claim C8 states that the new run identifiers begin with the last recorded generation plus
  one. \<^verbatim>\<open>vulcanOutput\<close> reads the single character \<^verbatim>\<open>runString[4]\<close>: when the last recorded
  run is \<^verbatim>\<open>Run 10-200\<close>, the controller continues with generation 2 (run identifier
  \<^verbatim>\<open>2-200\<close>), where the claim asks for \<^verbatim>\<open>11-\<close>.
\<close>

theorem vulcanOutput_generation_ten:
  "(case vulcanOutput [] example_controller ledger_generation_ten of
      Inl e \<Rightarrow> None
    | Inr (self', fs') \<Rightarrow> Some (currentRunID self', columnRunID self' ''200''))
   = Some (''2-'', ''2-200'')
   \<and> str_int (10 + 1) @ ''-'' = ''11-''"
  by code_simp

text \<open>
  For a last recorded generation of a single digit the next generation is that digit plus
  one, as the claim says; 9 is followed by 10.
\<close>

lemma vulcanOutput_single_digit:
  assumes "vulcanRunType self \<noteq> ''INITIAL_RUN''" and "vulcanRunType self \<noteq> ''NO_RUN''"
    and "readlines fs (VulcanRuntimeLogFilePath self) = Inr logLines"
    and "filter (\<lambda>x. hd (split x '' '') = ''Run'') logLines = rs @ [''Run '' @ str_int g @ rest]"
    and "0 \<le> g" and "g \<le> 9"
  shows "vulcanOutput header self fs = Inr (self\<lparr>currentRunID := str_int (g + 1) @ ''-''\<rparr>, fs)"
proof -
  let ?runString = "''Run '' @ str_int g @ rest"
  have digit: "int_at ?runString 4 = Inr g"
    using assms(5,6) by (simp add: int_at_def char_at_def str_int_digit py_int_char_digit)
  obtain r rs' where cons: "rs @ [?runString] = r # rs'"
    by (cases "rs @ [?runString]") simp_all
  then have "last (r # rs') = ?runString"
    by (metis last_snoc)
  with digit have "andThen (int_at (last (r # rs')) 4)
        (\<lambda>g. Inr (self\<lparr>currentRunID := str_int (g + 1) @ ''-''\<rparr>, fs))
      = Inr (self\<lparr>currentRunID := str_int (g + 1) @ ''-''\<rparr>, fs)"
    by (simp only: andThen_Inr)
  with assms(1-4) cons show ?thesis
    by (simp add: vulcanOutput_def Let_def del: last.simps)
qed

section \<open>Inbound overrides: pressure keys\<close>

text \<open>
  Claim C4 states that an override whose key contains \<^verbatim>\<open>Pressure\<close> is multiplied by 10 (the
  import conversion of \<^verbatim>\<open>translatePressure\<close>) before it is written to the side artifact.
  The branch for such keys calls \<^verbatim>\<open>translateHeight\<close>: the override
  \<^verbatim>\<open>{'lowerPressure': 5.0}\<close> for column 200 is written as 500.0, where
  \<^verbatim>\<open>translatePressure\<close> gives 50.0.
\<close>

theorem injectImports_pressure_as_height:
  "(case injectImports ''200'' [(PStr ''200'', [(''lowerPressure'', Finite 5)])] example_assembly of
      Inl e \<Rightarrow> None
    | Inr (imports', st') \<Rightarrow> sideArtifacts st' (modifyAtmFilePath (ctl st')))
   = Some [(''lowerPressure'', Finite 500)]
   \<and> translatePressure IMPORT (Finite 5) = Finite 50"
  by code_simp

section \<open>An unparsable previous artifact\<close>

text \<open>
  Claim C2 states that an unparsable line in any artifact of the comparison makes
  \<^verbatim>\<open>checkDup\<close> return \<^verbatim>\<open>False\<close>. With two recorded configuration events, a previous artifact
  holding the line \<^verbatim>\<open>nz = )\<close> and a well-formed working artifact, \<^verbatim>\<open>checkDup\<close> raises
  AttributeError: the guard inside the loop tests the dictionary of the working artifact, not
  the result for the previous one.
\<close>

theorem checkDup_unparsable_previous_raises:
  "checkDup eval_opt example_controller files_unparsable_previous = Inl AttributeError
   \<and> eval_opt '')'' = None"
  by code_simp

section \<open>Unit round trip\<close>

text \<open>
  Claim C7 states that exporting after importing returns the same number, for every finite
  float. The two operations are a binary64 multiplication and a binary64 division, each
  rounded. The float written \<^verbatim>\<open>0.007\<close> comes back from the height round trip one unit in
  the last place larger, and the float written \<^verbatim>\<open>0.11\<close> comes back changed from the pressure
  round trip (Python prints \<^verbatim>\<open>0.11000000000000001\<close>).
\<close>

theorem unit_roundtrip_counterexample:
  "fl (7 / 1000) = Finite (8070450532247929 / 1152921504606846976)
   \<and> translateHeight EXPORT (translateHeight IMPORT (Finite (8070450532247929 / 1152921504606846976)))
       = Finite (4035225266123965 / 576460752303423488)
   \<and> Finite (4035225266123965 / 576460752303423488) \<noteq> Finite (8070450532247929 / 1152921504606846976)
   \<and> fl (11 / 100) = Finite (7926335344172073 / 72057594037927936)
   \<and> translatePressure EXPORT (translatePressure IMPORT (Finite (7926335344172073 / 72057594037927936)))
       = Finite (3963167672086037 / 36028797018963968)
   \<and> Finite (3963167672086037 / 36028797018963968) \<noteq> Finite (7926335344172073 / 72057594037927936)"
  by code_simp

text \<open>
  Claim C7, amended: when the product of the import step is exact (the float \<open>h\<close> times
  100, or \<open>p\<close> times 10, is itself a binary64 number), the round trip returns the float
  it started from.
\<close>

theorem unit_roundtrip_exact:
  "(fl h = Finite h \<and> fl (h * 100) = Finite (h * 100)
      \<longrightarrow> translateHeight EXPORT (translateHeight IMPORT (Finite h)) = Finite h)
   \<and> (fl p = Finite p \<and> fl (p * 10) = Finite (p * 10)
      \<longrightarrow> translatePressure EXPORT (translatePressure IMPORT (Finite p)) = Finite p)"
  by (simp add: fmul_const_def fdiv_const_def)

theorem unit_roundtrip_exact_witness:
  "fl (5 / 2) = Finite (5 / 2) \<and> fl (5 / 2 * 100) = Finite (5 / 2 * 100)
   \<and> translateHeight EXPORT (translateHeight IMPORT (Finite (5 / 2))) = Finite (5 / 2)
   \<and> fl (5 / 2 * 10) = Finite (5 / 2 * 10)
   \<and> translatePressure EXPORT (translatePressure IMPORT (Finite (5 / 2))) = Finite (5 / 2)"
proof -
  have a: "fl (5 / 2) = Finite (5 / 2)" by code_simp
  have b: "fl (5 / 2 * 100) = Finite (5 / 2 * 100)" by code_simp
  have c: "fl (5 / 2 * 10) = Finite (5 / 2 * 10)" by code_simp
  from a b c unit_roundtrip_exact [of "5 / 2" "5 / 2"] show ?thesis by blast
qed

section \<open>Grid generation\<close>

text \<open>
  Claim C5 states that \<^verbatim>\<open>generateColumns\<close> returns the grid of identifiers \<^verbatim>\<open>2xy\<close>, one per
  cell and each unique, for every pair of world dimensions. The identifiers are not padded:
  in a world of 12 by 12 columns the cells (1, 11) and (11, 1) both receive \<^verbatim>\<open>2111\<close>.
\<close>

theorem generateColumns_twelve_collides:
  "(case generateColumns [12, 12] of
      Inl e \<Rightarrow> False
    | Inr cols \<Rightarrow> \<not> distinct cols
        \<and> ''2'' @ str_int 1 @ str_int 11 = ''2111'' \<and> ''2'' @ str_int 11 @ str_int 1 = ''2111''
        \<and> length (filter (\<lambda>c. c = ''2111'') cols) = 2)"
  by code_simp

text \<open>
  Claim C5, amended: for a square world of \<open>n\<close> by \<open>n\<close> columns with \<open>n\<close> at most 11,
  \<^verbatim>\<open>generateColumns\<close> returns exactly the identifiers \<^verbatim>\<open>2xy\<close> with \<open>x\<close> and \<open>y\<close> below
  \<open>n\<close>, one per cell, without repetition.
\<close>

theorem generateColumns_square_grid:
  assumes "n \<le> 11"
  shows "\<exists>cols. generateColumns (n # n # rest) = Inr cols
           \<and> set cols = {''2'' @ str_int x @ str_int y | x y. 0 \<le> x \<and> x < n \<and> 0 \<le> y \<and> y < n}
           \<and> distinct cols
           \<and> length cols = nat n * nat n"
proof -
  let ?f = "\<lambda>(x, y). ''2'' @ str_int x @ str_int y"
  let ?ps = "List.product (py_range n) (py_range n)"
  have cols: "generateColumns (n # n # rest) = Inr (map ?f ?ps)"
    by (rule generateColumns_product)
  have set_ps: "set ?ps = {0..<n} \<times> {0..<n}"
    by (simp add: set_py_range)
  have "set (map ?f ?ps) = ?f ` ({0..<n} \<times> {0..<n})"
    using set_ps by simp
  also have "\<dots> = {''2'' @ str_int x @ str_int y | x y. 0 \<le> x \<and> x < n \<and> 0 \<le> y \<and> y < n}"
    by (auto simp: image_iff) blast
  finally have s: "set (map ?f ?ps) =
      {''2'' @ str_int x @ str_int y | x y. 0 \<le> x \<and> x < n \<and> 0 \<le> y \<and> y < n}" .
  have inj11: "inj_on ?f (set (List.product (py_range 11) (py_range 11)))"
    using grid_eleven_distinct by (simp only: distinct_map)
  have "set ?ps \<subseteq> set (List.product (py_range 11) (py_range 11))"
    using assms by (auto simp: set_py_range)
  with inj11 have inj: "inj_on ?f (set ?ps)"
    by (rule inj_on_subset)
  have "distinct ?ps"
    by (simp add: distinct_product distinct_py_range)
  with inj have d: "distinct (map ?f ?ps)"
    by (simp add: distinct_map)
  have l: "length (map ?f ?ps) = nat n * nat n"
    by (simp add: length_py_range)
  from cols s d l show ?thesis by blast
qed

theorem generateColumns_square_grid_witness:
  "(2::int) \<le> 11
   \<and> generateColumns [2, 2] = Inr [''200'', ''201'', ''210'', ''211'']
   \<and> distinct [''200'', ''201'', ''210'', ''211'']"
proof -
  have e: "generateColumns [2, 2] = Inr [''200'', ''201'', ''210'', ''211'']"
    by code_simp
  from generateColumns_square_grid [of 2 "[]"] e show ?thesis by auto
qed

text \<open>
  Both loops of \<^verbatim>\<open>generateColumns\<close> take their bound from element 0 of the dimension list: a
  world of 2 by 3 columns yields the 2 by 2 grid.
\<close>

lemma generateColumns_ignores_second_dimension:
  "generateColumns [2, 3] = Inr [''200'', ''201'', ''210'', ''211'']"
  by code_simp

section \<open>Dedup correctness\<close>

text \<open>
  Claim C1 states that \<^verbatim>\<open>checkDup\<close> returns the pair of paths whenever a recorded previous
  artifact and the candidate parse to the same variables after the ignored names are removed.
  When an override side artifact is pending for the column, \<^verbatim>\<open>checkDup\<close> returns \<^verbatim>\<open>False\<close>
  before any comparison: here the previous artifact and the candidate both parse to
  \<^verbatim>\<open>{'nz': 120}\<close>.
\<close>

theorem checkDup_pending_override_fresh:
  "artifactDict eval_opt files_pending [''run_num''] ''/scum/output/vul-runtime/vul-run-1-200-cfgFile.txt''
     = Some [(''nz'', PInt 120)]
   \<and> artifactDict eval_opt files_pending [''run_num''] (latestCfgFilePath controller_pending)
     = Some [(''nz'', PInt 120)]
   \<and> previousCfgFilePaths (the (files_pending (VulcanRuntimeLogFilePath controller_pending)))
     = [''/scum/output/vul-runtime/vul-run-1-200-cfgFile.txt'']
   \<and> checkDup eval_opt controller_pending files_pending = Inr Fresh"
  by code_simp

text \<open>
  Claim C1, amended: when no override side artifact is pending, the ignore-list and the ledger
  are readable, the candidate parses to at least one variable that is not ignored, and every
  previous artifact recorded in the ledger parses, \<^verbatim>\<open>checkDup\<close> returns the pair for the
  FIRST previous artifact, in ledger order, whose variables (names and typed values, ignored
  names removed) equal the candidate's, and \<^verbatim>\<open>False\<close> when there is none.
\<close>

theorem checkDup_first_match:
  assumes "\<not> os_path_exists fs (modifyAtmFilePath self)"
    and "readlines fs (cfgComparator self) = Inr cmp"
    and "readlines fs (VulcanRuntimeLogFilePath self) = Inr logLines"
    and "artifactDict ev fs (map strip cmp) (latestCfgFilePath self) = Some latest"
    and "latest \<noteq> []"
    and "\<forall>p\<in>set (previousCfgFilePaths logLines). artifactDict ev fs (map strip cmp) p \<noteq> None"
  shows "checkDup ev self fs =
           Inr (case find (\<lambda>p. map_option map_of (artifactDict ev fs (map strip cmp) p) = Some (map_of latest))
                       (previousCfgFilePaths logLines) of
                  None \<Rightarrow> Fresh
                | Some p \<Rightarrow> Reuse p (latestCfgFilePath self))"
  using assms by (rule checkDup_find)

theorem checkDup_first_match_witness:
  "checkDup eval_opt example_controller files_second_run
     = Inr (Reuse ''/scum/output/vul-runtime/vul-run-1-200-cfgFile.txt''
                  ''/scum/vulcan_framework/vulcan_cfg.py'')"
proof -
  let ?log = "the (files_second_run ''/scum/output/vul-runtime/vul-log.txt'')"
  let ?p = "''/scum/output/vul-runtime/vul-run-1-200-cfgFile.txt''"
  have nm: "\<not> os_path_exists files_second_run (modifyAtmFilePath example_controller)"
    by code_simp
  have cmp: "readlines files_second_run (cfgComparator example_controller) = Inr [textline ''run_num'']"
    by code_simp
  have log: "readlines files_second_run (VulcanRuntimeLogFilePath example_controller) = Inr ?log"
    by code_simp
  have cand: "artifactDict eval_opt files_second_run (map strip [textline ''run_num''])
                (latestCfgFilePath example_controller) = Some [(''nz'', PInt 120)]"
    by code_simp
  have ne: "[(''nz'', PInt 120)] \<noteq> []" by simp
  have ps: "previousCfgFilePaths ?log = [?p]"
    by code_simp
  have prev: "artifactDict eval_opt files_second_run (map strip [textline ''run_num'']) ?p
                = Some [(''nz'', PInt 120)]"
    by code_simp
  have all: "\<forall>p\<in>set (previousCfgFilePaths ?log).
               artifactDict eval_opt files_second_run (map strip [textline ''run_num'']) p \<noteq> None"
    using prev unfolding ps by simp
  have path: "latestCfgFilePath example_controller = ''/scum/vulcan_framework/vulcan_cfg.py''"
    by code_simp
  from checkDup_first_match [OF nm cmp log cand ne all] prev
  show ?thesis unfolding ps path by simp
qed

section \<open>Fewer than two configuration events\<close>




section \<open>Ignore-list independence\<close>




section \<open>Neighbour set of a column\<close>

text \<open>
  Claim C10. For a three-character column identifier with single-digit coordinates
  \<open>a\<close>, \<open>b\<close>, \<open>c\<close>, \<^verbatim>\<open>nearestColumns\<close> returns, in this order, the identifiers of the
  unit steps \<open>b + 1\<close>, \<open>b - 1\<close> (when \<open>b > 0\<close>), \<open>c - 1\<close> (when \<open>c > 0\<close>) and \<open>c + 1\<close>:
  at most four, none with a negative coordinate, and never the column itself. The
  neighbour list of the MISTRA export is the part of it that ran in the latest pass, so
  it does not hold the column either, and the averaged record of a column does not
  depend on the column's own raw values.
\<close>

theorem nearestColumns_excludes_self:
  assumes "0 \<le> a" "a \<le> 9" "0 \<le> b" "b \<le> 9" "0 \<le> c" "c \<le> 9"
  shows "\<exists>ns ms.
           nearestColumns (columnID a b c) = Inr ns
         \<and> ns = [columnID a (b + 1) c]
                @ (if 0 < b then [columnID a (b - 1) c] else [])
                @ (if 0 < c then [columnID a b (c - 1)] else [])
                @ [columnID a b (c + 1)]
         \<and> length ns \<le> 4
         \<and> columnID a b c \<notin> set ns
         \<and> nearestListColumns latest (columnID a b c) = Inr ms
         \<and> set ms = set ns \<inter> set latest
         \<and> columnID a b c \<notin> set ms
         \<and> ((\<forall>col. col \<noteq> columnID a b c \<longrightarrow> raw col = raw' col)
              \<longrightarrow> mistraAverage avg raw latest (columnID a b c)
                  = mistraAverage avg raw' latest (columnID a b c))"
proof -
  let ?ns = "[columnID a (b + 1) c]
             @ (if 0 < b then [columnID a (b - 1) c] else [])
             @ (if 0 < c then [columnID a b (c - 1)] else [])
             @ [columnID a b (c + 1)]"
  let ?ms = "filter (\<lambda>n. n \<in> set latest) (remdups ?ns)"
  have ns: "nearestColumns (columnID a b c) = Inr ?ns"
    by (rule nearestColumns_digits [OF assms])
  have len: "length ?ns \<le> 4" by simp
  have self_ns: "columnID a b c \<notin> set ?ns"
    using columnID_step [OF assms] by auto
  have ms: "nearestListColumns latest (columnID a b c) = Inr ?ms"
    by (simp only: nearestListColumns_def ns andThen_Inr)
  have set_ms: "set ?ms = set ?ns \<inter> set latest" by auto
  have self_ms: "columnID a b c \<notin> set ?ms"
    using self_ns by auto
  have indep: "(\<forall>col. col \<noteq> columnID a b c \<longrightarrow> raw col = raw' col)
      \<longrightarrow> mistraAverage avg raw latest (columnID a b c)
        = mistraAverage avg raw' latest (columnID a b c)"
  proof
    assume agree: "\<forall>col. col \<noteq> columnID a b c \<longrightarrow> raw col = raw' col"
    show "mistraAverage avg raw latest (columnID a b c)
        = mistraAverage avg raw' latest (columnID a b c)"
    proof (rule mistraAverage_cong [OF ms])
      fix k assume "k \<in> set ?ms"
      with self_ms have "k \<noteq> columnID a b c" by blast
      with agree show "raw k = raw' k" by blast
    qed
  qed
  from ns len self_ns ms set_ms self_ms indep show ?thesis by blast
qed

theorem nearestColumns_excludes_self_witness:
  "nearestColumns ''211'' = Inr [''221'', ''201'', ''210'', ''212'']
   \<and> ''211'' \<notin> set [''221'', ''201'', ''210'', ''212'']
   \<and> mistraAverage hd example_rawOutputAll [''201'', ''210'', ''211''] ''211''
     = mistraAverage hd (example_rawOutputAll(''211'' \<mapsto> example_column 999)) [''201'', ''210'', ''211''] ''211''"
  using nearestColumns_excludes_self [of 2 1 1 "[''201'', ''210'', ''211'']"
          example_rawOutputAll "example_rawOutputAll(''211'' \<mapsto> example_column 999)" hd]
  by (simp add: columnID_def str_int_def str_nat.simps digit_char_def) blast

end
